theory Spec2Isabelle
  imports Complex_Main "HOL-Library.Monad_Syntax"
begin

section \<open>JavaScript values\<close>

text \<open>
  The engine is TypeScript: its types are erased at run time, and two of its entry points
  (the validator and the tool handler) receive JSON that nobody has checked against the
  declared types. Values are therefore modelled twice:
  \<^item> \<open>jv\<close>, a JavaScript value as \<open>JSON.parse\<close> or the XML reader delivers it, for the
    validator, the handler and the parser's input;
  \<^item> records that follow \<open>types.ts\<close>, for the calculator, the generator and the parser's
    output.

  The platform is modelled as ECMAScript defines it:
  \<^item> a string is its sequence of UTF-16 code units, each a natural number; \<open>lit\<close> turns an
    ASCII literal into one, and the other characters of the source's literals are written
    as their code units;
  \<^item> a \<open>number\<close> is an IEEE 754 binary64 value: a finite one is the rational it denotes,
    and every arithmetic operation rounds its exact result to the nearest binary64 value,
    a tie going to the even significand, and overflows to an infinity. The two zeros are
    one value: the source never divides by a variable, and every other operation it uses
    (\<open>String\<close>, \<open>toFixed\<close>, comparison, \<open>Set.has\<close>, truthiness) treats them alike;
  \<^item> an object is its list of own properties, the first binding of a name being its value;
    an array or an object is a fresh one, as \<open>JSON.parse\<close> builds it, so that two of them
    are never the same object.
\<close>

type_synonym jstring = "nat list"

definition lit :: "string \<Rightarrow> jstring" where
  "lit s = map of_char s"

datatype jsnum = Fin rat | PInf | NInf | NaN

datatype jv =
    JUndefined
  | JNull
  | JBool bool
  | JNum jsnum
  | JStr jstring
  | JArr "jv list"
  | JObj "(jstring \<times> jv) list"

text \<open>
  What a call can throw. \<open>Error\<close> is the source's own \<open>throw new Error(msg)\<close>;
  \<open>TypeError\<close> is what the platform raises when a property of \<open>undefined\<close> or
  \<open>null\<close> is read, when a value that is not a function is called, and when an object
  cannot be converted to a primitive value.
\<close>

datatype error = TypeError | Error jstring

definition bindE :: "error + 'a \<Rightarrow> ('a \<Rightarrow> error + 'b) \<Rightarrow> error + 'b" where
  "bindE m f = (case m of Inl e \<Rightarrow> Inl e | Inr x \<Rightarrow> f x)"

subsection \<open>Binary64 arithmetic\<close>

definition pow2 :: "int \<Rightarrow> rat" where
  "pow2 e = (if 0 \<le> e then 2 ^ nat e else 1 / 2 ^ nat (- e))"

definition pow10 :: "int \<Rightarrow> rat" where
  "pow10 e = (if 0 \<le> e then 10 ^ nat e else 1 / 10 ^ nat (- e))"

lemma floor_div_less:
  fixes a c :: rat
  assumes "1 \<le> a" and "2 \<le> c"
  shows "nat \<lfloor>a / c\<rfloor> < nat \<lfloor>a\<rfloor>"
proof -
  have z: "1 \<le> \<lfloor>a\<rfloor>" using assms(1) by (simp add: le_floor_iff)
  then have "(1 :: rat) \<le> of_int \<lfloor>a\<rfloor>" by (metis of_int_1 of_int_le_iff)
  moreover have "a < of_int \<lfloor>a\<rfloor> + 1" using floor_correct [of a] by simp
  moreover have "a / c \<le> a / 2" using assms by (intro divide_left_mono) auto
  ultimately have "a / c < of_int \<lfloor>a\<rfloor>" by linarith
  then have "\<lfloor>a / c\<rfloor> < \<lfloor>a\<rfloor>" by (simp add: floor_less_iff)
  with z show ?thesis by simp
qed

text \<open>
  The binary exponent of a positive rational: \<open>bexp a\<close> is the \<open>e\<close> with
  \<open>2 ^ e \<le> a < 2 ^ (e + 1)\<close>, found by halving or doubling.
\<close>

function up2 :: "rat \<Rightarrow> int \<Rightarrow> int" where
  "up2 a e = (if a < 2 then e else up2 (a / 2) (e + 1))"
  by pat_completeness auto
termination
proof (relation "measure (\<lambda>(a, e). nat \<lfloor>a\<rfloor>)", goal_cases)
  case 1 show ?case by simp
next
  case (2 a e)
  then have "1 \<le> a" by simp
  from floor_div_less [OF this, of 2] show ?case by simp
qed

function down2 :: "rat \<Rightarrow> int \<Rightarrow> int" where
  "down2 a e = (if a \<le> 0 \<or> 1 \<le> a then e else down2 (a * 2) (e - 1))"
  by pat_completeness auto
termination
proof (relation "measure (\<lambda>(a, e). nat \<lfloor>1 / a\<rfloor>)", goal_cases)
  case 1 show ?case by simp
next
  case (2 a e)
  then have "1 \<le> 1 / a" by simp
  from floor_div_less [OF this, of 2] show ?case by simp
qed

declare up2.simps [simp del] down2.simps [simp del]

definition bexp :: "rat \<Rightarrow> int" where
  "bexp a = (if 1 \<le> a then up2 a 0 else down2 a 0)"

text \<open>The nearest integer, a tie going to the even one.\<close>

definition round_even :: "rat \<Rightarrow> int" where
  "round_even m =
     (let f = \<lfloor>m\<rfloor>; d = m - of_int f
      in if d < 1 / 2 then f else if 1 / 2 < d then f + 1 else if even f then f else f + 1)"

text \<open>
  \<open>rnd x\<close> is the binary64 value of the real \<open>x\<close>: the nearest multiple of the spacing
  \<open>2 ^ (e - 52)\<close> of the binary64 values around \<open>x\<close> (\<open>e\<close> the binary exponent of \<open>x\<close>, at
  least \<open>-1022\<close>, below which the values are subnormal and evenly spaced), an infinity from
  \<open>2 ^ 1024\<close> on.
\<close>

definition rnd :: "rat \<Rightarrow> jsnum" where
  "rnd x =
     (if x = 0 then Fin 0
      else
        (let a = \<bar>x\<bar>;
             e = max (bexp a) (- 1022);
             q = pow2 (e - 52);
             r = of_int (round_even (a / q)) * q
         in if pow2 1024 \<le> r then (if x < 0 then NInf else PInf)
            else Fin (if x < 0 then - r else r)))"

fun jneg :: "jsnum \<Rightarrow> jsnum" where
  "jneg (Fin a) = Fin (- a)"
| "jneg PInf = NInf"
| "jneg NInf = PInf"
| "jneg NaN = NaN"

fun jadd :: "jsnum \<Rightarrow> jsnum \<Rightarrow> jsnum" where
  "jadd (Fin a) (Fin b) = rnd (a + b)"
| "jadd NaN _ = NaN"
| "jadd _ NaN = NaN"
| "jadd PInf NInf = NaN"
| "jadd NInf PInf = NaN"
| "jadd PInf _ = PInf"
| "jadd _ PInf = PInf"
| "jadd NInf _ = NInf"
| "jadd _ NInf = NInf"

definition jsub :: "jsnum \<Rightarrow> jsnum \<Rightarrow> jsnum" where
  "jsub a b = jadd a (jneg b)"

fun jsign :: "jsnum \<Rightarrow> int" where
  "jsign (Fin a) = (if a < 0 then - 1 else if a = 0 then 0 else 1)"
| "jsign PInf = 1"
| "jsign NInf = - 1"
| "jsign NaN = 0"

definition signed_inf :: "int \<Rightarrow> jsnum" where
  "signed_inf s = (if s = 0 then NaN else if 0 < s then PInf else NInf)"

fun jmul :: "jsnum \<Rightarrow> jsnum \<Rightarrow> jsnum" where
  "jmul (Fin a) (Fin b) = rnd (a * b)"
| "jmul NaN _ = NaN"
| "jmul _ NaN = NaN"
| "jmul x y = signed_inf (jsign x * jsign y)"

text \<open>
  A quotient. The source divides by the constant 100 only; a zero divisor is read as the
  positive zero.
\<close>

fun jdiv :: "jsnum \<Rightarrow> jsnum \<Rightarrow> jsnum" where
  "jdiv (Fin a) (Fin b) = (if b = 0 then signed_inf (jsign (Fin a)) else rnd (a / b))"
| "jdiv NaN _ = NaN"
| "jdiv _ NaN = NaN"
| "jdiv (Fin a) _ = Fin 0"
| "jdiv x (Fin b) = (if b < 0 then jneg x else x)"
| "jdiv _ _ = NaN"

fun jabs :: "jsnum \<Rightarrow> jsnum" where
  "jabs (Fin a) = Fin \<bar>a\<bar>"
| "jabs PInf = PInf"
| "jabs NInf = PInf"
| "jabs NaN = NaN"

text \<open>\<open>a < b\<close> and \<open>a > b\<close>: false as soon as one side is \<open>NaN\<close>.\<close>

fun jlt :: "jsnum \<Rightarrow> jsnum \<Rightarrow> bool" where
  "jlt (Fin a) (Fin b) = (a < b)"
| "jlt NaN _ = False"
| "jlt _ NaN = False"
| "jlt NInf NInf = False"
| "jlt NInf _ = True"
| "jlt (Fin a) PInf = True"
| "jlt _ _ = False"

definition jgt :: "jsnum \<Rightarrow> jsnum \<Rightarrow> bool" where
  "jgt a b = jlt b a"

definition isNaN :: "jsnum \<Rightarrow> bool" where
  "isNaN n = (n = NaN)"

text \<open>
  \<open>Math.round\<close>: the nearest integer, a tie going up. The result is exact: the integer
  nearest to a binary64 value is a binary64 value.
\<close>

fun math_round :: "jsnum \<Rightarrow> jsnum" where
  "math_round (Fin x) = Fin (of_int \<lfloor>x + 1 / 2\<rfloor>)"
| "math_round x = x"

text \<open>
  The source writes \<open>Math.round(x * 100) / 100\<close> at every rounding step; \<open>round2\<close> names
  that expression. Both the product and the quotient are rounded to binary64.
\<close>

definition round2 :: "jsnum \<Rightarrow> jsnum" where
  "round2 x = jdiv (math_round (jmul x (Fin 100))) (Fin 100)"

subsection \<open>Strings\<close>

text \<open>
  White space as \<open>trim\<close>, the pattern \<open>\s\<close> and the conversion of a string to a number
  know it: the \<open>WhiteSpace\<close> and \<open>LineTerminator\<close> code points of ECMAScript (tab, line
  feed, vertical tab, form feed, carriage return, space, no-break space, U+1680,
  U+2000 to U+200A, U+2028, U+2029, U+202F, U+205F, U+3000, U+FEFF).
\<close>

definition is_space :: "nat \<Rightarrow> bool" where
  "is_space c =
     ((9 \<le> c \<and> c \<le> 13) \<or> c = 32 \<or> c = 160 \<or> c = 5760 \<or> (8192 \<le> c \<and> c \<le> 8202) \<or>
      c = 8232 \<or> c = 8233 \<or> c = 8239 \<or> c = 8287 \<or> c = 12288 \<or> c = 65279)"

definition is_digit :: "nat \<Rightarrow> bool" where
  "is_digit c = (48 \<le> c \<and> c \<le> 57)"

definition is_upper :: "nat \<Rightarrow> bool" where
  "is_upper c = (65 \<le> c \<and> c \<le> 90)"

text \<open>\<open>s.trim()\<close> and \<open>s.replace(/\s/g, '')\<close>.\<close>

definition trim :: "jstring \<Rightarrow> jstring" where
  "trim s = rev (dropWhile is_space (rev (dropWhile is_space s)))"

definition strip_spaces :: "jstring \<Rightarrow> jstring" where
  "strip_spaces s = filter (\<lambda>c. \<not> is_space c) s"

text \<open>\<open>s.startsWith(sub)\<close> and \<open>s.includes(sub)\<close>.\<close>

fun starts_with :: "jstring \<Rightarrow> jstring \<Rightarrow> bool" where
  "starts_with s [] = True"
| "starts_with [] (c # cs) = False"
| "starts_with (d # ds) (c # cs) = (d = c \<and> starts_with ds cs)"

fun includes_str :: "jstring \<Rightarrow> jstring \<Rightarrow> bool" where
  "includes_str [] sub = (sub = [])"
| "includes_str (c # cs) sub = (starts_with (c # cs) sub \<or> includes_str cs sub)"

text \<open>\<open>xs.join(',')\<close> of strings.\<close>

fun join_comma :: "jstring list \<Rightarrow> jstring" where
  "join_comma [] = []"
| "join_comma [x] = x"
| "join_comma (x # y # r) = x @ [44] @ join_comma (y # r)"

subsection \<open>Numbers as text\<close>

fun nat_str :: "nat \<Rightarrow> jstring" where
  "nat_str n = (if n < 10 then [48 + n] else nat_str (n div 10) @ [48 + n mod 10])"

declare nat_str.simps [simp del]

definition dec_val :: "jstring \<Rightarrow> nat" where
  "dec_val ds = foldl (\<lambda>a c. 10 * a + (c - 48)) 0 ds"

text \<open>
  The decimal exponent of a positive rational: \<open>dexp a\<close> is the \<open>n\<close> with
  \<open>10 ^ (n - 1) \<le> a < 10 ^ n\<close>.
\<close>

function up10 :: "rat \<Rightarrow> int \<Rightarrow> int" where
  "up10 a n = (if a < 10 then n else up10 (a / 10) (n + 1))"
  by pat_completeness auto
termination
proof (relation "measure (\<lambda>(a, n). nat \<lfloor>a\<rfloor>)", goal_cases)
  case 1 show ?case by simp
next
  case (2 a n)
  then have "1 \<le> a" by simp
  from floor_div_less [OF this, of 10] show ?case by simp
qed

function down10 :: "rat \<Rightarrow> int \<Rightarrow> int" where
  "down10 a n = (if a \<le> 0 \<or> 1 / 10 \<le> a then n else down10 (a * 10) (n - 1))"
  by pat_completeness auto
termination
proof (relation "measure (\<lambda>(a, n). nat \<lfloor>1 / a\<rfloor>)", goal_cases)
  case 1 show ?case by simp
next
  case (2 a n)
  then have a: "0 < a" "a < 1 / 10" by auto
  then have "1 \<le> 1 / a" by simp
  from floor_div_less [OF this, of 10] show ?case by simp
qed

declare up10.simps [simp del] down10.simps [simp del]

definition dexp :: "rat \<Rightarrow> int" where
  "dexp a = (if 1 \<le> a then up10 a 1 else down10 a 0)"

text \<open>
  \<open>Number::toString\<close> writes the shortest decimal numeral that reads back as the same
  binary64 value: integers \<open>n\<close>, \<open>k\<close>, \<open>s\<close> with \<open>k\<close> digits in \<open>s\<close>,
  \<open>rnd (s * 10 ^ (n - k)) = x\<close> and \<open>k\<close> as small as possible, \<open>s\<close> the nearest to \<open>x\<close> when
  several fit. For \<open>k\<close> digits the only numerals to try are the two \<open>k\<close>-digit
  neighbours of \<open>x\<close>; \<open>candidate\<close> tries them, \<open>shortest\<close> looks for the least \<open>k\<close>
  (17 digits always suffice).
\<close>

definition candidate :: "rat \<Rightarrow> int \<Rightarrow> nat \<Rightarrow> (int \<times> int) option" where
  "candidate a n k =
     (let p = pow10 (n - int k);
          m = a / p;
          lo = \<lfloor>m\<rfloor>;
          hi = lo + 1;
          lo_ok = (rnd (of_int lo * p) = Fin a);
          hi_ok = (rnd (of_int hi * p) = Fin a);
          dl = m - of_int lo;
          dh = of_int hi - m
      in if lo_ok \<and> (\<not> hi_ok \<or> dl < dh \<or> (dl = dh \<and> even lo)) then Some (lo, n)
         else if hi_ok then Some (if hi = 10 ^ k then (10 ^ (k - 1), n + 1) else (hi, n))
         else None)"

function shortest :: "rat \<Rightarrow> int \<Rightarrow> nat \<Rightarrow> int \<times> int" where
  "shortest a n k =
     (case candidate a n k of
        Some r \<Rightarrow> r
      | None \<Rightarrow> if 17 \<le> k then (\<lfloor>a / pow10 (n - int k)\<rfloor>, n) else shortest a n (k + 1))"
  by pat_completeness auto
termination
  by (relation "measure (\<lambda>(a, n, k). 17 - k)") auto

declare shortest.simps [simp del]

text \<open>
  The layout of the digits \<open>ds\<close> of \<open>s\<close> for the decimal exponent \<open>n\<close>: positional notation
  for \<open>-6 < n \<le> 21\<close>, exponent notation otherwise.
\<close>

definition layout :: "jstring \<Rightarrow> int \<Rightarrow> jstring" where
  "layout ds n =
     (let k = int (length ds)
      in if k \<le> n \<and> n \<le> 21 then ds @ replicate (nat (n - k)) 48
         else if 0 < n \<and> n \<le> 21 then take (nat n) ds @ [46] @ drop (nat n) ds
         else if - 6 < n \<and> n \<le> 0 then [48, 46] @ replicate (nat (- n)) 48 @ ds
         else
           (let e = n - 1;
                es = [101, if e < 0 then 45 else 43] @ nat_str (nat \<bar>e\<bar>)
            in if k = 1 then ds @ es else [hd ds, 46] @ tl ds @ es))"

text \<open>\<open>String(n)\<close>, also what a template literal does to a number.\<close>

definition pos_str :: "rat \<Rightarrow> jstring" where
  "pos_str a = (let (s, n) = shortest a (dexp a) 1 in layout (nat_str (nat s)) n)"

fun num_str :: "jsnum \<Rightarrow> jstring" where
  "num_str NaN = lit ''NaN''"
| "num_str PInf = lit ''Infinity''"
| "num_str NInf = lit ''-Infinity''"
| "num_str (Fin x) =
     (if x = 0 then [48] else if x < 0 then [45] @ pos_str (- x) else pos_str x)"

text \<open>
  \<open>n.toFixed(2)\<close>: the sign first, then the magnitude rounded to hundredths with a tie
  going up, always with two decimals; \<open>String(n)\<close> from \<open>1e21\<close> on.
\<close>

fun toFixed2 :: "jsnum \<Rightarrow> jstring" where
  "toFixed2 (Fin x) =
     (if 10 ^ 21 \<le> \<bar>x\<bar> then num_str (Fin x)
      else
        (let n = nat \<lfloor>\<bar>x\<bar> * 100 + 1 / 2\<rfloor>
         in (if x < 0 then [45] else []) @ nat_str (n div 100) @ [46] @
            [48 + n mod 100 div 10, 48 + n mod 10]))"
| "toFixed2 x = num_str x"

text \<open>
  Reading a decimal literal (\<open>StrDecimalLiteral\<close>) at the start of a string: a sign, then
  \<open>Infinity\<close> or digits with an optional fraction and an optional exponent. The result is
  the value and what follows the literal.
\<close>

definition read_sign :: "jstring \<Rightarrow> bool \<times> jstring" where
  "read_sign s =
     (case s of
        [] \<Rightarrow> (False, [])
      | c # r \<Rightarrow> if c = 45 then (True, r) else if c = 43 then (False, r) else (False, s))"

definition read_exponent :: "jstring \<Rightarrow> int \<times> jstring" where
  "read_exponent s =
     (case s of
        [] \<Rightarrow> (0, [])
      | c # r \<Rightarrow>
          if c = 101 \<or> c = 69 then
            (let (neg, r') = read_sign r; ds = takeWhile is_digit r'
             in if ds = [] then (0, s)
                else (if neg then - int (dec_val ds) else int (dec_val ds), dropWhile is_digit r'))
          else (0, s))"

definition read_fraction :: "bool \<Rightarrow> jstring \<Rightarrow> jstring \<times> jstring" where
  "read_fraction digits_before s =
     (case s of
        [] \<Rightarrow> ([], [])
      | c # r \<Rightarrow>
          if c = 46 \<and> (digits_before \<or> takeWhile is_digit r \<noteq> [])
          then (takeWhile is_digit r, dropWhile is_digit r)
          else ([], s))"

definition read_decimal :: "jstring \<Rightarrow> (rat \<times> jstring) option" where
  "read_decimal s =
     (let ip = takeWhile is_digit s;
          (fp, t) = read_fraction (ip \<noteq> []) (dropWhile is_digit s)
      in if ip = [] \<and> fp = [] then None
         else
           (let (e, rest) = read_exponent t
            in Some ((of_nat (dec_val ip) + of_nat (dec_val fp) / 10 ^ length fp) * pow10 e, rest)))"

definition read_literal :: "jstring \<Rightarrow> (jsnum \<times> jstring) option" where
  "read_literal s =
     (let (neg, t) = read_sign s
      in if starts_with t (lit ''Infinity'') then Some (if neg then NInf else PInf, drop 8 t)
         else
           (case read_decimal t of
              None \<Rightarrow> None
            | Some (v, rest) \<Rightarrow> Some (rnd (if neg then - v else v), rest)))"

text \<open>\<open>parseFloat(s)\<close>: skips leading white space and reads the longest literal there.\<close>

definition parseFloat :: "jstring \<Rightarrow> jsnum" where
  "parseFloat s = (case read_literal (dropWhile is_space s) of None \<Rightarrow> NaN | Some (v, rest) \<Rightarrow> v)"

text \<open>
  \<open>Number(s)\<close> for a string (\<open>StringToNumber\<close>): the trimmed string is empty (zero), a
  hexadecimal, octal or binary integer literal without sign, or a decimal literal; \<open>NaN\<close>
  when anything else is left.
\<close>

definition digit_of :: "nat \<Rightarrow> nat option" where
  "digit_of c =
     (if 48 \<le> c \<and> c \<le> 57 then Some (c - 48)
      else if 97 \<le> c \<and> c \<le> 102 then Some (c - 87)
      else if 65 \<le> c \<and> c \<le> 70 then Some (c - 55)
      else None)"

fun radix_val :: "nat \<Rightarrow> nat \<Rightarrow> jstring \<Rightarrow> nat option" where
  "radix_val b acc [] = Some acc"
| "radix_val b acc (c # cs) =
     (case digit_of c of
        None \<Rightarrow> None
      | Some d \<Rightarrow> if d < b then radix_val b (b * acc + d) cs else None)"

definition radix_literal :: "jstring \<Rightarrow> nat option" where
  "radix_literal s =
     (case s of
        z # c # d # ds \<Rightarrow>
          if z \<noteq> 48 then None
          else if c = 120 \<or> c = 88 then radix_val 16 0 (d # ds)
          else if c = 111 \<or> c = 79 then radix_val 8 0 (d # ds)
          else if c = 98 \<or> c = 66 then radix_val 2 0 (d # ds)
          else None
      | _ \<Rightarrow> None)"

definition str_to_number :: "jstring \<Rightarrow> jsnum" where
  "str_to_number s =
     (let t = trim s
      in if t = [] then Fin 0
         else
           (case radix_literal t of
              Some n \<Rightarrow> rnd (of_nat n)
            | None \<Rightarrow>
                (case read_literal t of
                   None \<Rightarrow> NaN
                 | Some (v, rest) \<Rightarrow> if rest = [] then v else NaN)))"

subsection \<open>Property access and truthiness\<close>

definition nullish :: "jv \<Rightarrow> bool" where
  "nullish v = (v = JUndefined \<or> v = JNull)"

text \<open>
  \<open>get_key v k\<close> reads the property \<open>k\<close> of a value that is neither \<open>undefined\<close> nor
  \<open>null\<close>: a missing property, and any named property of a primitive but the length of a
  string, is \<open>undefined\<close>. None of the names that the source reads is a member of a
  prototype. \<open>get v k\<close> is the same for a name written in ASCII, as all of the source's are.
\<close>

fun get_key :: "jv \<Rightarrow> jstring \<Rightarrow> jv" where
  "get_key (JObj kvs) k = (case map_of kvs k of Some v \<Rightarrow> v | None \<Rightarrow> JUndefined)"
| "get_key (JArr xs) k =
     (if k = lit ''length'' then JNum (Fin (of_nat (length xs))) else JUndefined)"
| "get_key (JStr s) k =
     (if k = lit ''length'' then JNum (Fin (of_nat (length s))) else JUndefined)"
| "get_key _ k = JUndefined"

definition get :: "jv \<Rightarrow> string \<Rightarrow> jv" where
  "get v k = get_key v (lit k)"

text \<open>\<open>v[i]\<close> for an index \<open>i\<close>, on a value that is neither \<open>undefined\<close> nor \<open>null\<close>.\<close>

definition elem_at :: "jv \<Rightarrow> nat \<Rightarrow> jv" where
  "elem_at v i =
     (case v of
        JArr xs \<Rightarrow> if i < length xs then xs ! i else JUndefined
      | JStr s \<Rightarrow> if i < length s then JStr [s ! i] else JUndefined
      | JObj kvs \<Rightarrow> get_key v (nat_str i)
      | _ \<Rightarrow> JUndefined)"

text \<open>\<open>v.k\<close> and \<open>v[k]\<close> throw on \<open>undefined\<close> and \<open>null\<close>; \<open>v?.k\<close> gives \<open>undefined\<close> there.\<close>

definition read_prop :: "jv \<Rightarrow> string \<Rightarrow> error + jv" where
  "read_prop v k = (if nullish v then Inl TypeError else Inr (get v k))"

definition opt_prop :: "jv \<Rightarrow> string \<Rightarrow> jv" where
  "opt_prop v k = (if nullish v then JUndefined else get v k)"

text \<open>
  The assignment \<open>v.k = x\<close> on an object: the property keeps its place when it is there,
  and goes to the end when it is new.
\<close>

fun set_key :: "(jstring \<times> jv) list \<Rightarrow> jstring \<Rightarrow> jv \<Rightarrow> (jstring \<times> jv) list" where
  "set_key [] k x = [(k, x)]"
| "set_key ((k', v) # m) k x = (if k' = k then (k', x) # m else (k', v) # set_key m k x)"

definition obj_set :: "(jstring \<times> jv) list \<Rightarrow> string \<Rightarrow> jv \<Rightarrow> (jstring \<times> jv) list" where
  "obj_set m k x = set_key m (lit k) x"

text \<open>\<open>a ?? b\<close>.\<close>

definition coalesce :: "jv \<Rightarrow> jv \<Rightarrow> jv" where
  "coalesce a b = (if nullish a then b else a)"

fun truthy :: "jv \<Rightarrow> bool" where
  "truthy JUndefined = False"
| "truthy JNull = False"
| "truthy (JBool b) = b"
| "truthy (JNum n) = (n \<noteq> NaN \<and> n \<noteq> Fin 0)"
| "truthy (JStr s) = (s \<noteq> [])"
| "truthy (JArr xs) = True"
| "truthy (JObj kvs) = True"

subsection \<open>Conversions\<close>

text \<open>
  \<open>String(v)\<close>, which is what a template literal does to a value. An array joins the
  strings of its elements with commas, \<open>undefined\<close> and \<open>null\<close> counting as empty. An object
  is \<open>[object Object]\<close>, unless it has a \<open>toString\<close> property of its own: read from JSON
  that property is not a function, no other method gives a primitive value, and the
  conversion throws.
\<close>

fun to_string :: "jv \<Rightarrow> error + jstring"
  and elems_str :: "jv list \<Rightarrow> error + jstring list" where
  "to_string JUndefined = Inr (lit ''undefined'')"
| "to_string JNull = Inr (lit ''null'')"
| "to_string (JBool b) = Inr (if b then lit ''true'' else lit ''false'')"
| "to_string (JNum n) = Inr (num_str n)"
| "to_string (JStr s) = Inr s"
| "to_string (JArr xs) = bindE (elems_str xs) (\<lambda>ss. Inr (join_comma ss))"
| "to_string (JObj kvs) =
     (if map_of kvs (lit ''toString'') = None then Inr (lit ''[object Object]'') else Inl TypeError)"
| "elems_str [] = Inr []"
| "elems_str (x # xs) =
     bindE (if x = JUndefined \<or> x = JNull then Inr [] else to_string x) (\<lambda>s.
     bindE (elems_str xs) (\<lambda>ss. Inr (s # ss)))"

text \<open>
  \<open>Number(v)\<close>, which is what \<open>*\<close> and \<open><\<close> do to an operand: an array or an object is
  converted to a string first.
\<close>

definition to_number :: "jv \<Rightarrow> error + jsnum" where
  "to_number v =
     (case v of
        JUndefined \<Rightarrow> Inr NaN
      | JNull \<Rightarrow> Inr (Fin 0)
      | JBool b \<Rightarrow> Inr (Fin (if b then 1 else 0))
      | JNum n \<Rightarrow> Inr n
      | JStr s \<Rightarrow> Inr (str_to_number s)
      | _ \<Rightarrow> bindE (to_string v) (\<lambda>s. Inr (str_to_number s)))"

section \<open>The validator (\<open>validateInvoice\<close>)\<close>

text \<open>
  The validator's argument is declared an \<open>Invoice\<close>, but the handler passes it the
  request's JSON unchecked, and the function guards its reads with \<open>?.\<close>. Its argument
  is therefore a \<open>jv\<close>.
\<close>

record ValidationResult =
  valid :: bool
  errors :: "jstring list"
  warnings :: "jstring list"

subsection \<open>Message text\<close>

text \<open>The characters of the messages that are not ASCII, as their code units.\<close>

definition e_acute :: jstring where "e_acute = [233]"
definition e_grave :: jstring where "e_grave = [232]"
definition e_circ :: jstring where "e_circ = [234]"
definition times_sign :: jstring where "times_sign = [215]"
definition neq_sign :: jstring where "neq_sign = [8800]"
definition em_dash :: jstring where "em_dash = [8212]"
definition euro_sign :: jstring where "euro_sign = [8364]"
definition apostrophe :: jstring where "apostrophe = [39]"

definition msg_BT1 :: jstring where
  "msg_BT1 = lit ''BT-1 : Num'' @ e_acute @ lit ''ro de facture requis''"
definition msg_BT2 :: jstring where
  "msg_BT2 = lit ''BT-2 : Date de facture invalide (format attendu : YYYY-MM-DD)''"
definition msg_BT3 :: jstring where
  "msg_BT3 = lit ''BT-3 : Code type facture invalide (valeurs : 380, 381, 389, 384)''"
definition msg_BT5 :: jstring where
  "msg_BT5 = lit ''BT-5 : Code devise invalide (format ISO 4217, ex: EUR)''"
definition msg_profile :: jstring where
  "msg_profile = lit ''Profil Factur-X requis (MINIMUM, BASIC, EN_16931, EXTENDED)''"
definition msg_BT9 :: jstring where
  "msg_BT9 = lit ''BT-9 : Date d'' @ apostrophe @ e_acute @
     lit ''ch'' @ e_acute @ lit ''ance invalide (format attendu : YYYY-MM-DD)''"
definition msg_delivery :: jstring where
  "msg_delivery = lit ''Date de livraison invalide (format attendu : YYYY-MM-DD)''"
definition msg_BT27 :: jstring where
  "msg_BT27 = lit ''BT-27 : Nom du vendeur requis''"
definition msg_BT35 :: jstring where
  "msg_BT35 = lit ''BT-35 : Adresse (rue) du vendeur requise''"
definition msg_BT37 :: jstring where
  "msg_BT37 = lit ''BT-37 : Ville du vendeur requise''"
definition msg_BT38 :: jstring where
  "msg_BT38 = lit ''BT-38 : Code postal du vendeur requis''"
definition msg_BT40 :: jstring where
  "msg_BT40 = lit ''BT-40 : Code pays vendeur invalide (format ISO 3166-1 alpha-2, ex: FR)''"
definition msg_BT31 :: jstring where
  "msg_BT31 = lit ''BT-31/BT-29 : Num'' @ e_acute @
     lit ''ro de TVA ou identifiant vendeur recommand'' @ e_acute @
     lit '' pour le profil EN 16931''"
definition msg_BT44 :: jstring where
  "msg_BT44 = lit ''BT-44 : Nom de l'' @ apostrophe @ lit ''acheteur requis''"
definition msg_BT57 :: jstring where
  "msg_BT57 = lit ''BT-57 : Code pays acheteur invalide (format ISO 3166-1 alpha-2, ex: FR)''"
definition msg_no_line :: jstring where
  "msg_no_line = lit ''Au moins une ligne de facture est requise''"
definition msg_BT84 :: jstring where
  "msg_BT84 = lit ''BT-84 : Format IBAN potentiellement invalide''"

text \<open>The messages of a line start with its reference, \<open>`Ligne ${line.id || i + 1}`\<close>.\<close>

definition msg_BT126 :: "jstring \<Rightarrow> jstring" where
  "msg_BT126 ref = ref @ lit '' : Identifiant de ligne dupliqu'' @ e_acute @ lit '' (BT-126)''"
definition msg_BT153 :: "jstring \<Rightarrow> jstring" where
  "msg_BT153 ref = ref @ lit '' : D'' @ e_acute @ lit ''signation requise (BT-153)''"
definition msg_BT129 :: "jstring \<Rightarrow> jstring" where
  "msg_BT129 ref = ref @ lit '' : Quantit'' @ e_acute @ lit '' invalide (BT-129)''"
definition msg_BT130 :: "jstring \<Rightarrow> jstring" where
  "msg_BT130 ref = ref @ lit '' : Code unit'' @ e_acute @ lit '' requis (BT-130) '' @ em_dash @
     lit '' ex: C62 (pi'' @ e_grave @ lit ''ce), HUR (heure)''"
definition msg_BT146 :: "jstring \<Rightarrow> jstring" where
  "msg_BT146 ref = ref @ lit '' : Prix unitaire invalide (BT-146)''"
definition msg_BT131 :: "jstring \<Rightarrow> jstring" where
  "msg_BT131 ref = ref @ lit '' : Montant total ligne invalide (BT-131)''"
definition msg_BT152 :: "jstring \<Rightarrow> jstring" where
  "msg_BT152 ref = ref @ lit '' : Taux TVA invalide (BT-152) '' @ em_dash @
     lit '' doit '' @ e_circ @ lit ''tre >= 0''"
definition msg_BT151 :: "jstring \<Rightarrow> jstring" where
  "msg_BT151 ref = ref @ lit '' : Code cat'' @ e_acute @ lit ''gorie TVA invalide (BT-151) '' @
     em_dash @ lit '' valeurs: S, Z, E, K, G, O''"

text \<open>
  The warning of a line whose total is not its quantity times its unit price: it quotes
  \<open>actual\<close>, \<open>expected\<close> and \<open>Math.abs(expected - actual).toFixed(2)\<close>.
\<close>

definition msg_amount :: "jstring \<Rightarrow> jsnum \<Rightarrow> jsnum \<Rightarrow> jstring" where
  "msg_amount ref actual expected =
     ref @ lit '' : Montant total ('' @ num_str actual @ lit '') '' @ neq_sign @
     lit '' quantit'' @ e_acute @ lit '' '' @ times_sign @ lit '' prix unitaire ('' @
     num_str expected @ lit '') '' @ em_dash @ lit '' '' @ e_acute @ lit ''cart de '' @
     toFixed2 (jabs (jsub expected actual)) @ lit '' '' @ euro_sign"

subsection \<open>The regular expressions and the two sets\<close>

text \<open>\<open>/^\d{4}-\d{2}-\d{2}$/\<close>\<close>

definition DATE_RE :: "jstring \<Rightarrow> bool" where
  "DATE_RE s =
     (length s = 10 \<and> list_all is_digit (take 4 s) \<and> s ! 4 = 45 \<and>
      list_all is_digit (take 2 (drop 5 s)) \<and> s ! 7 = 45 \<and> list_all is_digit (drop 8 s))"

text \<open>\<open>/^[A-Z]{3}$/\<close> and \<open>/^[A-Z]{2}$/\<close>\<close>

definition CURRENCY_RE :: "jstring \<Rightarrow> bool" where
  "CURRENCY_RE s = (length s = 3 \<and> list_all is_upper s)"

definition COUNTRY_RE :: "jstring \<Rightarrow> bool" where
  "COUNTRY_RE s = (length s = 2 \<and> list_all is_upper s)"

text \<open>\<open>/^[A-Z]{2}\d{2}[A-Z0-9]{4,30}$/\<close>\<close>

definition IBAN_RE :: "jstring \<Rightarrow> bool" where
  "IBAN_RE s =
     (8 \<le> length s \<and> length s \<le> 34 \<and> list_all is_upper (take 2 s) \<and>
      list_all is_digit (take 2 (drop 2 s)) \<and>
      list_all (\<lambda>c. is_upper c \<or> is_digit c) (drop 4 s))"

definition VAT_CATEGORY_CODES :: "jstring list" where
  "VAT_CATEGORY_CODES =
     [lit ''S'', lit ''Z'', lit ''E'', lit ''K'', lit ''G'', lit ''O'', lit ''L'', lit ''M'']"

definition INVOICE_TYPE_CODES :: "jstring list" where
  "INVOICE_TYPE_CODES = [lit ''380'', lit ''381'', lit ''389'', lit ''384'']"

text \<open>\<open>SET.has(v)\<close> for a set of strings.\<close>

definition set_has :: "jstring list \<Rightarrow> jv \<Rightarrow> bool" where
  "set_has xs v = (case v of JStr s \<Rightarrow> s \<in> set xs | _ \<Rightarrow> False)"

subsection \<open>The guarded reads\<close>

text \<open>
  \<open>!x?.trim()\<close>: \<open>undefined\<close> and \<open>null\<close> stop the chain, a string is trimmed, and on
  anything else \<open>trim\<close> is not a function.
\<close>

definition blank :: "jv \<Rightarrow> error + bool" where
  "blank x =
     (if nullish x then Inr True
      else (case x of JStr s \<Rightarrow> Inr (trim s = []) | _ \<Rightarrow> Inl TypeError))"

text \<open>\<open>!x?.match(RE)\<close>\<close>

definition no_match :: "(jstring \<Rightarrow> bool) \<Rightarrow> jv \<Rightarrow> error + bool" where
  "no_match re x =
     (if nullish x then Inr True
      else (case x of JStr s \<Rightarrow> Inr (\<not> re s) | _ \<Rightarrow> Inl TypeError))"

text \<open>\<open>x && !x.match(DATE_RE)\<close>\<close>

definition bad_date :: "jv \<Rightarrow> error + bool" where
  "bad_date x =
     (if \<not> truthy x then Inr False
      else (case x of JStr s \<Rightarrow> Inr (\<not> DATE_RE s) | _ \<Rightarrow> Inl TypeError))"

text \<open>\<open>typeof v !== 'number' || isNaN(v)\<close>\<close>

definition not_number :: "jv \<Rightarrow> bool" where
  "not_number v = (case v of JNum n \<Rightarrow> isNaN n | _ \<Rightarrow> True)"

text \<open>
  \<open>lineIds.has(v)\<close>: a primitive is found when an equal one was added; an array or an
  object is never the one that was added.
\<close>

definition ids_has :: "jv list \<Rightarrow> jv \<Rightarrow> bool" where
  "ids_has ids v = (case v of JArr xs \<Rightarrow> False | JObj kvs \<Rightarrow> False | _ \<Rightarrow> v \<in> set ids)"

definition when_msg :: "bool \<Rightarrow> jstring \<Rightarrow> jstring list" where
  "when_msg b m = (if b then [m] else [])"

subsection \<open>The five sections of the function\<close>

definition header_errors :: "jv \<Rightarrow> error + jstring list" where
  "header_errors invoice =
     bindE (read_prop invoice ''number'') (\<lambda>n.
     bindE (blank n) (\<lambda>b1.
     bindE (no_match DATE_RE (get invoice ''date'')) (\<lambda>b2.
     bindE (no_match CURRENCY_RE (get invoice ''currency'')) (\<lambda>b5.
     bindE (bad_date (get invoice ''dueDate'')) (\<lambda>b9.
     bindE (bad_date (get invoice ''deliveryDate'')) (\<lambda>bd.
       Inr (when_msg b1 msg_BT1 @
            when_msg b2 msg_BT2 @
            when_msg (\<not> set_has INVOICE_TYPE_CODES (get invoice ''typeCode'')) msg_BT3 @
            when_msg b5 msg_BT5 @
            when_msg (\<not> truthy (get invoice ''profile'')) msg_profile @
            when_msg b9 msg_BT9 @
            when_msg bd msg_delivery)))))))"

definition seller_checks :: "jv \<Rightarrow> error + jstring list \<times> jstring list" where
  "seller_checks invoice =
     (let s = get invoice ''seller''; a = opt_prop s ''address''
      in bindE (blank (opt_prop s ''name'')) (\<lambda>b27.
         bindE (blank (opt_prop a ''street'')) (\<lambda>b35.
         bindE (blank (opt_prop a ''city'')) (\<lambda>b37.
         bindE (blank (opt_prop a ''postalCode'')) (\<lambda>b38.
         bindE (no_match COUNTRY_RE (opt_prop a ''countryCode'')) (\<lambda>b40.
           Inr (when_msg b27 msg_BT27 @ when_msg b35 msg_BT35 @ when_msg b37 msg_BT37 @
                when_msg b38 msg_BT38 @ when_msg b40 msg_BT40,
                when_msg (\<not> truthy (opt_prop s ''vatNumber'') \<and> \<not> truthy (opt_prop s ''id''))
                  msg_BT31)))))))"

definition buyer_errors :: "jv \<Rightarrow> error + jstring list" where
  "buyer_errors invoice =
     (let b = get invoice ''buyer''
      in bindE (blank (opt_prop b ''name'')) (\<lambda>b44.
         bindE (no_match COUNTRY_RE (opt_prop (opt_prop b ''address'') ''countryCode'')) (\<lambda>b57.
           Inr (when_msg b44 msg_BT44 @ when_msg b57 msg_BT57))))"

text \<open>The literal \<open>0.02\<close> is the binary64 value nearest to it.\<close>

definition tolerance :: jsnum where
  "tolerance = rnd (2 / 100)"

text \<open>
  The body of the loop over the lines: \<open>i\<close> is the index, \<open>lineIds\<close> the identifiers of
  the lines before. It gives the errors and the warnings that the line adds. The index
  \<open>i + 1\<close> in the reference is a number below \<open>1e21\<close>, written with all its digits.
\<close>

definition check_line :: "nat \<Rightarrow> jv list \<Rightarrow> jv \<Rightarrow> error + jstring list \<times> jstring list" where
  "check_line i lineIds line =
     bindE (read_prop line ''id'') (\<lambda>lid.
     bindE (if truthy lid then to_string lid else Inr (nat_str (i + 1))) (\<lambda>r.
     bindE (blank (get line ''description'')) (\<lambda>b153.
     bindE (blank (get line ''unitCode'')) (\<lambda>b130.
     bindE (to_number (get line ''quantity'')) (\<lambda>q.
     bindE (to_number (get line ''unitPrice'')) (\<lambda>p.
     bindE (to_number (get line ''totalAmount'')) (\<lambda>t.
       let ref = lit ''Ligne '' @ r;
           rate = get line ''vatRate'';
           expected = round2 (jmul q p);
           actual = round2 t
       in Inr (when_msg (ids_has lineIds lid) (msg_BT126 ref) @
               when_msg b153 (msg_BT153 ref) @
               when_msg (not_number (get line ''quantity'')) (msg_BT129 ref) @
               when_msg b130 (msg_BT130 ref) @
               when_msg (not_number (get line ''unitPrice'')) (msg_BT146 ref) @
               when_msg (not_number (get line ''totalAmount'')) (msg_BT131 ref) @
               when_msg (case rate of JNum n \<Rightarrow> jlt n (Fin 0) \<or> isNaN n | _ \<Rightarrow> True)
                 (msg_BT152 ref) @
               when_msg (\<not> set_has VAT_CATEGORY_CODES (get line ''vatCategory'')) (msg_BT151 ref),
               when_msg (jgt (jabs (jsub expected actual)) tolerance)
                 (msg_amount ref actual expected)))))))))"

text \<open>
  \<open>for (let i = 0; i < invoice.lines.length; i++)\<close> over \<open>ls\<close>, which is an array, a
  string (the loop then visits its characters) or an object with a \<open>length\<close> of its own;
  \<open>len\<close> is that length as a number. The loop ends at the first index that is not below
  the length, or throws at the first index that holds nothing. A value of \<open>n\<close> elements,
  characters or properties holds nothing at one of the indices \<open>0\<close> to \<open>n\<close>, so that
  \<open>n + 1\<close> rounds are enough: \<open>check_from\<close> counts them down.
\<close>

definition below :: "nat \<Rightarrow> jsnum \<Rightarrow> bool" where
  "below i len = jlt (Fin (of_nat i)) len"

fun check_from :: "nat \<Rightarrow> jv \<Rightarrow> jsnum \<Rightarrow> nat \<Rightarrow> jv list \<Rightarrow> error + jstring list \<times> jstring list" where
  "check_from 0 ls len i lineIds = (if below i len then Inl TypeError else Inr ([], []))"
| "check_from (Suc rounds) ls len i lineIds =
     (if \<not> below i len then Inr ([], [])
      else
        bindE (check_line i lineIds (elem_at ls i)) (\<lambda>r.
        bindE (check_from rounds ls len (i + 1) (lineIds @ [get (elem_at ls i) ''id''])) (\<lambda>rs.
          Inr (fst r @ fst rs, snd r @ snd rs))))"

definition holds :: "jv \<Rightarrow> nat" where
  "holds v =
     (case v of JArr xs \<Rightarrow> length xs | JStr s \<Rightarrow> length s | JObj kvs \<Rightarrow> length kvs | _ \<Rightarrow> 0)"

definition lines_checks :: "jv \<Rightarrow> error + jstring list \<times> jstring list" where
  "lines_checks invoice =
     (let ls = get invoice ''lines''; len = opt_prop ls ''length''
      in if \<not> truthy len then Inr ([msg_no_line], [])
         else bindE (to_number len) (\<lambda>n. check_from (holds ls + 1) ls n 0 []))"

definition payment_warnings :: "jv \<Rightarrow> error + jstring list" where
  "payment_warnings invoice =
     (let i = opt_prop (get invoice ''payment'') ''iban''
      in if \<not> truthy i then Inr []
         else (case i of
                 JStr s \<Rightarrow> Inr (when_msg (\<not> IBAN_RE (strip_spaces s)) msg_BT84)
               | _ \<Rightarrow> Inl TypeError))"

definition validateInvoice :: "jv \<Rightarrow> error + ValidationResult" where
  "validateInvoice invoice =
     bindE (header_errors invoice) (\<lambda>e1.
     bindE (seller_checks invoice) (\<lambda>r2.
     bindE (buyer_errors invoice) (\<lambda>e3.
     bindE (lines_checks invoice) (\<lambda>r4.
     bindE (payment_warnings invoice) (\<lambda>w5.
       let errs = e1 @ fst r2 @ e3 @ fst r4;
           warns = snd r2 @ snd r4 @ w5
       in Inr \<lparr>valid = (length errs = 0), errors = errs, warnings = warns\<rparr>)))))"

section \<open>Requests on which the validator returns\<close>

text \<open>
  The validator calls \<open>trim\<close>, \<open>match\<close> and \<open>replace\<close> on what it reads, behind \<open>?.\<close> or
  a test of truthiness. \<open>str_ok\<close> is what \<open>x?.trim()\<close> and \<open>x?.match(re)\<close> accept: nothing
  or a string. \<open>falsy_or_str\<close> is what \<open>x && x.match(re)\<close> accepts. \<open>convertible\<close> is what a
  template literal and \<open>*\<close> accept: any value but an object with a \<open>toString\<close> property of
  its own, alone or inside arrays.
\<close>

definition str_ok :: "jv \<Rightarrow> bool" where
  "str_ok x = (case x of JUndefined \<Rightarrow> True | JNull \<Rightarrow> True | JStr s \<Rightarrow> True | _ \<Rightarrow> False)"

definition falsy_or_str :: "jv \<Rightarrow> bool" where
  "falsy_or_str x = (\<not> truthy x \<or> (case x of JStr s \<Rightarrow> True | _ \<Rightarrow> False))"

fun convertible :: "jv \<Rightarrow> bool"
  and elems_convertible :: "jv list \<Rightarrow> bool" where
  "convertible (JObj kvs) = (map_of kvs (lit ''toString'') = None)"
| "convertible (JArr xs) = elems_convertible xs"
| "convertible v = True"
| "elems_convertible [] = True"
| "elems_convertible (x # xs) = (convertible x \<and> elems_convertible xs)"

text \<open>A line that the body of the loop accepts.\<close>

definition line_ok :: "jv \<Rightarrow> bool" where
  "line_ok l =
     (\<not> nullish l \<and>
      (\<not> truthy (get l ''id'') \<or> convertible (get l ''id'')) \<and>
      str_ok (get l ''description'') \<and> str_ok (get l ''unitCode'') \<and>
      convertible (get l ''quantity'') \<and> convertible (get l ''unitPrice'') \<and>
      convertible (get l ''totalAmount''))"

definition number_of :: "jv \<Rightarrow> jsnum" where
  "number_of v = (case to_number v of Inl e \<Rightarrow> NaN | Inr n \<Rightarrow> n)"

text \<open>
  The lines that the loop accepts: there is no length, or a length that is falsy, or every
  element at an index below the length is a line that the body accepts.
\<close>

definition lines_ok :: "jv \<Rightarrow> bool" where
  "lines_ok ls =
     (let len = opt_prop ls ''length''
      in \<not> truthy len \<or>
         (convertible len \<and> (\<forall>i. below i (number_of len) \<longrightarrow> line_ok (elem_at ls i))))"

text \<open>What each of the other four sections of the function accepts.\<close>

definition header_ok :: "jv \<Rightarrow> bool" where
  "header_ok v =
     (\<not> nullish v \<and>
      str_ok (get v ''number'') \<and> str_ok (get v ''date'') \<and> str_ok (get v ''currency'') \<and>
      falsy_or_str (get v ''dueDate'') \<and> falsy_or_str (get v ''deliveryDate''))"

definition seller_ok :: "jv \<Rightarrow> bool" where
  "seller_ok v =
     (let s = get v ''seller''; a = opt_prop s ''address''
      in str_ok (opt_prop s ''name'') \<and> str_ok (opt_prop a ''street'') \<and>
         str_ok (opt_prop a ''city'') \<and> str_ok (opt_prop a ''postalCode'') \<and>
         str_ok (opt_prop a ''countryCode''))"

definition buyer_ok :: "jv \<Rightarrow> bool" where
  "buyer_ok v =
     (let b = get v ''buyer''
      in str_ok (opt_prop b ''name'') \<and>
         str_ok (opt_prop (opt_prop b ''address'') ''countryCode''))"

definition payment_ok :: "jv \<Rightarrow> bool" where
  "payment_ok v = falsy_or_str (opt_prop (get v ''payment'') ''iban'')"

definition safe :: "jv \<Rightarrow> bool" where
  "safe v =
     (header_ok v \<and> seller_ok v \<and> buyer_ok v \<and> lines_ok (get v ''lines'') \<and> payment_ok v)"

text \<open>The conversions of a value that is convertible.\<close>

definition string_of :: "jv \<Rightarrow> jstring" where
  "string_of v = (case to_string v of Inl e \<Rightarrow> [] | Inr s \<Rightarrow> s)"




section \<open>Sample data\<close>

text \<open>
  Requests as JSON text gives them: \<open>obj\<close> is an object literal, \<open>jstr\<close> a string literal,
  \<open>jnum\<close> a number literal, which denotes the binary64 value nearest to it.
\<close>

definition obj :: "(string \<times> jv) list \<Rightarrow> jv" where
  "obj kvs = JObj (map (\<lambda>kv. (lit (fst kv), snd kv)) kvs)"

definition jstr :: "string \<Rightarrow> jv" where
  "jstr s = JStr (lit s)"

definition jnum :: "rat \<Rightarrow> jv" where
  "jnum x = JNum (rnd x)"

definition sample_party :: "string \<Rightarrow> jv" where
  "sample_party n =
     obj [(''name'', jstr n),
          (''vatNumber'', jstr ''FR12345678901''),
          (''address'', obj [(''street'', jstr ''1 rue de la Paix''), (''city'', jstr ''Paris''),
                            (''postalCode'', jstr ''75001''), (''countryCode'', jstr ''FR'')])]"

text \<open>A line of \<open>q\<close> units at the price \<open>p\<close> with the total \<open>t\<close>, at 20 % of VAT.\<close>

definition sample_line :: "rat \<Rightarrow> rat \<Rightarrow> rat \<Rightarrow> jv" where
  "sample_line q p t =
     obj [(''id'', jstr ''1''), (''description'', jstr ''Conseil''), (''quantity'', jnum q),
          (''unitCode'', jstr ''HUR''), (''unitPrice'', jnum p), (''totalAmount'', jnum t),
          (''vatRate'', jnum 20), (''vatCategory'', jstr ''S'')]"

text \<open>A request with the number \<open>n\<close> and the lines \<open>ls\<close>, everything else in order.\<close>

definition sample_request :: "jv \<Rightarrow> jv \<Rightarrow> jv" where
  "sample_request n ls =
     obj [(''number'', n), (''typeCode'', jstr ''380''), (''date'', jstr ''2024-01-15''),
          (''currency'', jstr ''EUR''), (''profile'', jstr ''EN_16931''),
          (''seller'', sample_party ''ACME''), (''buyer'', sample_party ''Client''),
          (''lines'', ls)]"

definition sample_invoice :: jv where
  "sample_invoice = sample_request (jstr ''F-2024-001'') (JArr [sample_line 10 150 1500])"

section \<open>Evaluation\<close>

text \<open>
  The facts that let the simplifier run the definitions on a concrete input, the
  arguments of a call first.
\<close>

lemma bindE_simps [simp]: "bindE (Inl e) f = Inl e" "bindE (Inr x) f = f x"
  by (simp_all add: bindE_def)

lemma bindE_Inr: "bindE m f = Inr y \<longleftrightarrow> (\<exists>x. m = Inr x \<and> f x = Inr y)"
  by (cases m) simp_all

lemma bindE_weak_cong: "m = m' \<Longrightarrow> bindE m f = bindE m' f"
  by simp

lemmas by_value = let_weak_cong bindE_weak_cong

lemma lit_inj [simp]: "(lit a = lit b) = (a = b)"
proof -
  have "inj (of_char :: char \<Rightarrow> nat)" by (rule inj_on_inverseI [of _ char_of]) simp
  then show ?thesis by (auto simp: lit_def dest: inj_mapD [THEN injD])
qed

lemma floor_rat_div [simp]:
  "\<lfloor>(numeral a :: rat) / numeral b\<rfloor> = numeral a div numeral b"
  "\<lfloor>- ((numeral a :: rat) / numeral b)\<rfloor> = - numeral a div numeral b"
  "\<lfloor>(1 :: rat) / numeral b\<rfloor> = 1 div numeral b"
  by (simp_all add: floor_divide_of_int_eq [of "numeral a" "numeral b", where ?'a = rat, simplified]
      floor_divide_of_int_eq [of "- numeral a" "numeral b", where ?'a = rat, simplified]
      floor_divide_of_int_eq [of "1" "numeral b", where ?'a = rat, simplified])

lemmas num_eval = Let_def rnd_def bexp_def up2.simps down2.simps round_even_def pow2_def pow10_def
  jsub_def signed_inf_def jgt_def isNaN_def round2_def is_space_def is_digit_def is_upper_def
  trim_def strip_spaces_def nat_str.simps dec_val_def up10.simps down10.simps dexp_def
  candidate_def shortest.simps layout_def pos_str_def read_sign_def read_exponent_def
  read_fraction_def read_decimal_def read_literal_def parseFloat_def digit_of_def
  radix_literal_def str_to_number_def lit_def tolerance_def below_def

lemmas js_eval = get_def read_prop_def opt_prop_def coalesce_def nullish_def elem_at_def
  obj_set_def to_number_def

lemmas ok_eval = safe_def header_ok_def seller_ok_def buyer_ok_def payment_ok_def str_ok_def
  falsy_or_str_def line_ok_def

lemmas json_eval = obj_def jstr_def jnum_def sample_party_def sample_line_def sample_request_def
  sample_invoice_def

lemmas msg_eval = e_acute_def e_grave_def e_circ_def times_sign_def neq_sign_def em_dash_def
  euro_sign_def apostrophe_def msg_BT1_def msg_BT2_def msg_BT3_def msg_BT5_def msg_profile_def
  msg_BT9_def msg_delivery_def msg_BT27_def msg_BT35_def msg_BT37_def msg_BT38_def msg_BT40_def
  msg_BT31_def msg_BT44_def msg_BT57_def msg_no_line_def msg_BT84_def msg_BT126_def
  msg_BT153_def msg_BT129_def msg_BT130_def msg_BT146_def msg_BT131_def msg_BT152_def
  msg_BT151_def msg_amount_def

lemmas validate_eval =
  validateInvoice_def header_errors_def seller_checks_def buyer_errors_def lines_checks_def
  payment_warnings_def check_line_def blank_def no_match_def bad_date_def not_number_def
  ids_has_def when_msg_def set_has_def DATE_RE_def holds_def
  CURRENCY_RE_def COUNTRY_RE_def IBAN_RE_def VAT_CATEGORY_CODES_def INVOICE_TYPE_CODES_def

lemma validate_sample:
  "validateInvoice sample_invoice = Inr \<lparr>valid = True, errors = [], warnings = []\<rparr>"
  by (simp add: json_eval validate_eval js_eval num_eval cong: by_value)

section \<open>The validator's result\<close>

text \<open>
  C10. Whatever the argument, a result that \<open>validateInvoice\<close> returns has \<open>valid = true\<close>
  exactly when its list of errors is empty; the warnings have no part in the flag.
\<close>

theorem validate_valid_iff_no_errors:
  "validateInvoice v = Inr r \<Longrightarrow> valid r = (errors r = [])"
  by (auto simp: validateInvoice_def bindE_Inr Let_def)

theorem validate_valid_iff_no_errors_witness:
  "\<exists>r. validateInvoice sample_invoice = Inr r \<and> valid r = (errors r = [])"
  using validate_valid_iff_no_errors [OF validate_sample] validate_sample by blast

section \<open>The validator returns\<close>

lemma blank_eq:
  "blank x = (if str_ok x then Inr (case x of JStr s \<Rightarrow> trim s = [] | _ \<Rightarrow> True) else Inl TypeError)"
  by (cases x) (simp_all add: blank_def str_ok_def nullish_def)

lemma no_match_eq:
  "no_match re x = (if str_ok x then Inr (case x of JStr s \<Rightarrow> \<not> re s | _ \<Rightarrow> True) else Inl TypeError)"
  by (cases x) (simp_all add: no_match_def str_ok_def nullish_def)

lemma bad_date_eq:
  "bad_date x =
     (if falsy_or_str x then Inr (case x of JStr s \<Rightarrow> s \<noteq> [] \<and> \<not> DATE_RE s | _ \<Rightarrow> False)
      else Inl TypeError)"
  by (cases x) (auto simp: bad_date_def falsy_or_str_def)

lemma to_string_cases:
  "(convertible x \<longrightarrow> (\<exists>s. to_string x = Inr s)) \<and> (\<not> convertible x \<longrightarrow> to_string x = Inl TypeError)"
  "(elems_convertible xs \<longrightarrow> (\<exists>ss. elems_str xs = Inr ss)) \<and>
   (\<not> elems_convertible xs \<longrightarrow> elems_str xs = Inl TypeError)"
proof (induction x and xs rule: to_string_elems_str.induct)
  case (9 x xs)
  show ?case
  proof (cases "x = JUndefined \<or> x = JNull")
    case True
    with 9 show ?thesis by auto
  next
    case False
    with 9 show ?thesis by auto
  qed
qed auto

lemma to_string_eq:
  "to_string x = (if convertible x then Inr (string_of x) else Inl TypeError)"
  using to_string_cases(1) [of x] by (auto simp: string_of_def)

lemma to_number_eq:
  "to_number x = (if convertible x then Inr (number_of x) else Inl TypeError)"
proof (cases "convertible x")
  case True
  then obtain s where "to_string x = Inr s" using to_string_cases(1) [of x] by auto
  then have "\<exists>n. to_number x = Inr n" by (cases x) (simp_all add: to_number_def)
  with True show ?thesis by (auto simp: number_of_def)
next
  case False
  then have "to_string x = Inl TypeError" using to_string_cases(1) [of x] by auto
  with False show ?thesis by (cases x) (simp_all add: to_number_def)
qed

lemma header_cases:
  "(header_ok v \<longrightarrow> (\<exists>e. header_errors v = Inr e)) \<and>
   (\<not> header_ok v \<longrightarrow> header_errors v = Inl TypeError)"
  by (simp add: header_ok_def header_errors_def read_prop_def blank_eq no_match_eq bad_date_eq)

lemma seller_cases:
  "(seller_ok v \<longrightarrow> (\<exists>r. seller_checks v = Inr r)) \<and>
   (\<not> seller_ok v \<longrightarrow> seller_checks v = Inl TypeError)"
  by (simp add: seller_ok_def seller_checks_def Let_def blank_eq no_match_eq)

lemma buyer_cases:
  "(buyer_ok v \<longrightarrow> (\<exists>e. buyer_errors v = Inr e)) \<and>
   (\<not> buyer_ok v \<longrightarrow> buyer_errors v = Inl TypeError)"
  by (simp add: buyer_ok_def buyer_errors_def Let_def blank_eq no_match_eq)

lemma payment_cases:
  "(payment_ok v \<longrightarrow> (\<exists>w. payment_warnings v = Inr w)) \<and>
   (\<not> payment_ok v \<longrightarrow> payment_warnings v = Inl TypeError)"
proof -
  let ?i = "opt_prop (get v ''payment'') ''iban''"
  show ?thesis
    by (cases ?i) (auto simp: payment_ok_def payment_warnings_def Let_def falsy_or_str_def)
qed

lemma check_line_cases:
  "(line_ok l \<longrightarrow> (\<exists>r. check_line i ids l = Inr r)) \<and>
   (\<not> line_ok l \<longrightarrow> check_line i ids l = Inl TypeError)"
  by (simp add: line_ok_def check_line_def read_prop_def blank_eq to_string_eq to_number_eq Let_def)

lemma below_mono: "below j n \<Longrightarrow> i \<le> j \<Longrightarrow> below i n"
  by (cases n) (simp_all add: below_def)

lemma dec_val_nat_str: "dec_val (nat_str n) = n"
proof (induction n rule: nat_str.induct)
  case (1 n)
  show ?case
  proof (cases "n < 10")
    case True
    then show ?thesis by (subst nat_str.simps) (simp add: dec_val_def)
  next
    case False
    with 1 have "dec_val (nat_str (n div 10)) = n div 10" by simp
    with False show ?thesis by (subst nat_str.simps) (simp add: dec_val_def)
  qed
qed

lemma nat_str_inj: "inj nat_str"
  by (rule inj_on_inverseI [of _ dec_val]) (simp add: dec_val_nat_str)

text \<open>
  A value that holds \<open>n\<close> elements, characters or properties holds nothing at one of the
  indices \<open>0\<close> to \<open>n\<close>.
\<close>

lemma some_index_empty: "\<exists>i \<le> holds ls. nullish (elem_at ls i)"
proof (cases ls)
  case (JObj kvs)
  have "\<exists>i \<le> length kvs. map_of kvs (nat_str i) = None"
  proof (rule ccontr)
    assume "\<not> ?thesis"
    then have "nat_str ` {..length kvs} \<subseteq> fst ` set kvs"
      by (auto simp: map_of_eq_None_iff)
    then have "card (nat_str ` {..length kvs}) \<le> card (fst ` set kvs)"
      by (intro card_mono) auto
    moreover have "card (nat_str ` {..length kvs}) = length kvs + 1"
      using nat_str_inj by (simp add: card_image inj_on_subset [OF _ subset_UNIV])
    moreover have "card (fst ` set kvs) \<le> length kvs"
      by (meson card_image_le card_length le_trans List.finite_set)
    ultimately show False by simp
  qed
  with JObj show ?thesis by (auto simp: holds_def elem_at_def nullish_def)
qed (auto simp: holds_def elem_at_def nullish_def)

lemma check_from_cases:
  "(\<exists>r. check_from f ls n i ids = Inr r) \<or> check_from f ls n i ids = Inl TypeError"
proof (induction f arbitrary: i ids)
  case 0
  show ?case by simp
next
  case (Suc f)
  let ?ids = "ids @ [get (elem_at ls i) ''id'']"
  from check_line_cases [of "elem_at ls i" i ids]
  consider r where "check_line i ids (elem_at ls i) = Inr r"
    | "check_line i ids (elem_at ls i) = Inl TypeError" by blast
  then show ?case
  proof cases
    case 1
    with Suc [of "i + 1" ?ids] show ?thesis by auto
  next
    case 2
    then show ?thesis by simp
  qed
qed

lemma check_from_returns:
  "(\<exists>r. check_from f ls n i ids = Inr r) \<longleftrightarrow>
   (\<exists>m \<le> f. \<not> below (i + m) n \<and> (\<forall>j < m. line_ok (elem_at ls (i + j))))"
proof (induction f arbitrary: i ids)
  case 0
  show ?case by simp
next
  case (Suc f)
  let ?ids = "ids @ [get (elem_at ls i) ''id'']"
  let ?rest = "\<exists>m \<le> f. \<not> below (i + 1 + m) n \<and> (\<forall>j < m. line_ok (elem_at ls (i + 1 + j)))"
  have ih: "(\<exists>r. check_from f ls n (i + 1) ?ids = Inr r) \<longleftrightarrow> ?rest" by (rule Suc)
  have step: "(\<exists>r. check_from (Suc f) ls n i ids = Inr r) \<longleftrightarrow>
              (\<not> below i n \<or> (line_ok (elem_at ls i) \<and> ?rest))"
  proof (cases "below i n")
    case False
    then show ?thesis by simp
  next
    case True
    show ?thesis
    proof (cases "line_ok (elem_at ls i)")
      case False
      with True check_line_cases [of "elem_at ls i" i ids] show ?thesis by simp
    next
      case ok: True
      with check_line_cases [of "elem_at ls i" i ids] obtain r where
        r: "check_line i ids (elem_at ls i) = Inr r" by blast
      have "(\<exists>r'. check_from (Suc f) ls n i ids = Inr r') \<longleftrightarrow>
            (\<exists>rs. check_from f ls n (i + 1) ?ids = Inr rs)"
        using True r by (cases "check_from f ls n (i + 1) ?ids") simp_all
      with ih True ok show ?thesis by simp
    qed
  qed
  have "(\<not> below i n \<or> (line_ok (elem_at ls i) \<and> ?rest)) \<longleftrightarrow>
        (\<exists>m \<le> Suc f. \<not> below (i + m) n \<and> (\<forall>j < m. line_ok (elem_at ls (i + j))))"
    (is "?l \<longleftrightarrow> ?r")
  proof
    assume ?l
    then show ?r
    proof
      assume "\<not> below i n"
      then show ?r by (intro exI [of _ 0]) simp
    next
      assume "line_ok (elem_at ls i) \<and> ?rest"
      then obtain m where m: "m \<le> f" "\<not> below (i + 1 + m) n"
        "\<forall>j < m. line_ok (elem_at ls (i + 1 + j))" and ok: "line_ok (elem_at ls i)" by blast
      have "\<forall>j < Suc m. line_ok (elem_at ls (i + j))"
      proof (intro allI impI)
        fix j assume "j < Suc m"
        then show "line_ok (elem_at ls (i + j))"
          using m(3) ok by (cases j) simp_all
      qed
      with m show ?r by (intro exI [of _ "Suc m"]) simp
    qed
  next
    assume ?r
    then obtain m where m: "m \<le> Suc f" "\<not> below (i + m) n"
      "\<forall>j < m. line_ok (elem_at ls (i + j))" by blast
    show ?l
    proof (cases m)
      case 0
      with m show ?thesis by simp
    next
      case (Suc m')
      with m have "line_ok (elem_at ls i)" by (metis add.right_neutral zero_less_Suc)
      moreover from m Suc have "m' \<le> f" "\<not> below (i + 1 + m') n" by simp_all
      moreover from m(3) Suc have "\<forall>j < m'. line_ok (elem_at ls (i + 1 + j))"
        by (metis Suc_less_eq add_Suc_right add_Suc_shift Suc_eq_plus1)
      ultimately show ?thesis by blast
    qed
  qed
  with step show ?case by simp
qed

lemma loop_returns:
  "(\<exists>r. check_from (holds ls + 1) ls n 0 [] = Inr r) \<longleftrightarrow>
   (\<forall>i. below i n \<longrightarrow> line_ok (elem_at ls i))"
proof
  assume "\<exists>r. check_from (holds ls + 1) ls n 0 [] = Inr r"
  then have "\<exists>m \<le> holds ls + 1. \<not> below (0 + m) n \<and>
      (\<forall>j < m. line_ok (elem_at ls (0 + j)))"
    by (simp only: check_from_returns)
  then obtain m where m: "\<not> below m n" "\<forall>j < m. line_ok (elem_at ls j)"
    by auto
  show "\<forall>i. below i n \<longrightarrow> line_ok (elem_at ls i)"
  proof (intro allI impI)
    fix i assume "below i n"
    with m(1) have "i < m" using below_mono [of i n m] by (cases "i < m") auto
    with m(2) show "line_ok (elem_at ls i)" by simp
  qed
next
  assume a: "\<forall>i. below i n \<longrightarrow> line_ok (elem_at ls i)"
  from some_index_empty [of ls] obtain i0 where i0: "i0 \<le> holds ls" "nullish (elem_at ls i0)"
    by blast
  then have "\<not> line_ok (elem_at ls i0)" by (simp add: line_ok_def)
  with a have nb: "\<not> below i0 n" by blast
  define m where "m = (LEAST m. \<not> below m n)"
  have 1: "\<not> below m n" unfolding m_def using nb by (rule LeastI)
  have 2: "m \<le> i0" unfolding m_def using nb by (rule Least_le)
  have 3: "\<forall>j < m. line_ok (elem_at ls j)"
    using a not_less_Least [of _ "\<lambda>m. \<not> below m n"] unfolding m_def by blast
  from 1 2 3 i0(1) have "\<exists>m \<le> holds ls + 1. \<not> below (0 + m) n \<and>
      (\<forall>j < m. line_ok (elem_at ls (0 + j)))"
    by (intro exI [of _ m]) simp
  then show "\<exists>r. check_from (holds ls + 1) ls n 0 [] = Inr r"
    by (simp only: check_from_returns)
qed

lemma lines_cases:
  "(lines_ok (get v ''lines'') \<longrightarrow> (\<exists>r. lines_checks v = Inr r)) \<and>
   (\<not> lines_ok (get v ''lines'') \<longrightarrow> lines_checks v = Inl TypeError)"
proof -
  let ?ls = "get v ''lines''"
  let ?len = "opt_prop ?ls ''length''"
  show ?thesis
  proof (cases "truthy ?len")
    case False
    then show ?thesis by (simp add: lines_ok_def lines_checks_def Let_def)
  next
    case t: True
    show ?thesis
    proof (cases "convertible ?len")
      case False
      with t show ?thesis by (simp add: lines_ok_def lines_checks_def Let_def to_number_eq)
    next
      case True
      let ?n = "number_of ?len"
      have eq: "lines_checks v = check_from (holds ?ls + 1) ?ls ?n 0 []"
        using t True by (simp add: lines_checks_def Let_def to_number_eq)
      have ok: "lines_ok ?ls \<longleftrightarrow> (\<forall>i. below i ?n \<longrightarrow> line_ok (elem_at ?ls i))"
        using t True by (simp add: lines_ok_def Let_def)
      from check_from_cases [of "holds ?ls + 1" ?ls ?n 0 "[]"] loop_returns [of ?ls ?n]
      show ?thesis unfolding eq ok by auto
    qed
  qed
qed

text \<open>
  C4, as the code has it. \<open>validateInvoice\<close> is a total function of its argument: its one
  loop ends. It returns a result (the flag \<open>valid\<close>, the list of errors and the list of
  warnings, both in the order of the checks) exactly on the arguments that \<open>safe\<close>
  describes: the argument is not \<open>undefined\<close> or \<open>null\<close>; each value on which the source
  calls a string method behind \<open>?.\<close> (the number, the date, the currency, the seller's
  name, street, city, postal code and country, the buyer's name and country, every line's
  description and unit code) is a string, \<open>undefined\<close> or \<open>null\<close>; each value on which it
  calls one behind a test of truthiness (the due date, the delivery date, the IBAN) is a
  string or falsy; every line that the loop visits is not \<open>undefined\<close> or \<open>null\<close>; and no
  value that it converts to text or to a number (a line's truthy identifier, quantity,
  unit price and total, the length of the lines) is an object with a \<open>toString\<close> property
  of its own. A type code, a profile, a party, a VAT rate or a category of any type does
  not make it throw. On every other argument it throws a \<open>TypeError\<close>.
\<close>

theorem validate_returns:
  "(safe v \<longrightarrow> (\<exists>r. validateInvoice v = Inr r)) \<and>
   (\<not> safe v \<longrightarrow> validateInvoice v = Inl TypeError)"
proof (intro conjI impI)
  assume "safe v"
  then have "header_ok v" "seller_ok v" "buyer_ok v" "lines_ok (get v ''lines'')" "payment_ok v"
    by (simp_all add: safe_def)
  with header_cases [of v] seller_cases [of v] buyer_cases [of v] lines_cases [of v]
    payment_cases [of v]
  obtain e1 r2 e3 r4 w5 where "header_errors v = Inr e1" "seller_checks v = Inr r2"
    "buyer_errors v = Inr e3" "lines_checks v = Inr r4" "payment_warnings v = Inr w5"
    by blast
  then show "\<exists>r. validateInvoice v = Inr r" by (simp add: validateInvoice_def Let_def)
next
  assume n: "\<not> safe v"
  note c = header_cases [of v] seller_cases [of v] buyer_cases [of v] lines_cases [of v]
    payment_cases [of v]
  show "validateInvoice v = Inl TypeError"
  proof (cases "header_ok v")
    case False
    with c(1) show ?thesis by (simp add: validateInvoice_def)
  next
    case h: True
    with c(1) obtain e1 where e1: "header_errors v = Inr e1" by blast
    show ?thesis
    proof (cases "seller_ok v")
      case False
      with c(2) e1 show ?thesis by (simp add: validateInvoice_def)
    next
      case s: True
      with c(2) obtain r2 where r2: "seller_checks v = Inr r2" by blast
      show ?thesis
      proof (cases "buyer_ok v")
        case False
        with c(3) e1 r2 show ?thesis by (simp add: validateInvoice_def)
      next
        case b: True
        with c(3) obtain e3 where e3: "buyer_errors v = Inr e3" by blast
        show ?thesis
        proof (cases "lines_ok (get v ''lines'')")
          case False
          with c(4) e1 r2 e3 show ?thesis by (simp add: validateInvoice_def)
        next
          case l: True
          with c(4) obtain r4 where r4: "lines_checks v = Inr r4" by blast
          from n h s b l have "\<not> payment_ok v" by (simp add: safe_def)
          with c(5) e1 r2 e3 r4 show ?thesis by (simp add: validateInvoice_def)
        qed
      qed
    qed
  qed
qed

lemma lines_ok_array: "lines_ok (JArr xs) = list_all line_ok xs"
proof -
  have "(\<forall>i. below i (Fin (of_nat (length xs))) \<longrightarrow> line_ok (elem_at (JArr xs) i)) =
        list_all line_ok xs"
    by (auto simp: below_def elem_at_def list_all_length)
  then show ?thesis
    by (cases xs)
       (simp_all add: lines_ok_def opt_prop_def nullish_def get_def number_of_def to_number_def)
qed

theorem validate_returns_witness:
  "(safe sample_invoice \<and> (\<exists>r. validateInvoice sample_invoice = Inr r)) \<and>
   (safe (JObj []) \<and> (\<exists>r. validateInvoice (JObj []) = Inr r)) \<and>
   (safe (obj [(''number'', jstr ''F1''), (''typeCode'', jnum 380), (''profile'', jnum 1),
               (''dueDate'', jnum 0), (''seller'', jstr ''ACME''), (''buyer'', jnum 7),
               (''lines'', JArr [obj [(''quantity'', jstr ''10''), (''vatRate'', jstr ''20'')]])]) \<and>
    (\<exists>r. validateInvoice
           (obj [(''number'', jstr ''F1''), (''typeCode'', jnum 380), (''profile'', jnum 1),
                 (''dueDate'', jnum 0), (''seller'', jstr ''ACME''), (''buyer'', jnum 7),
                 (''lines'', JArr [obj [(''quantity'', jstr ''10''), (''vatRate'', jstr ''20'')]])]) =
         Inr r)) \<and>
   (\<not> safe (sample_request (jnum 123) (JArr [sample_line 10 150 1500])) \<and>
    validateInvoice (sample_request (jnum 123) (JArr [sample_line 10 150 1500])) = Inl TypeError) \<and>
   (\<not> safe (sample_request (jstr ''F1'') (JArr [JNull])) \<and>
    validateInvoice (sample_request (jstr ''F1'') (JArr [JNull])) = Inl TypeError)"
proof -
  let ?odd = "obj [(''number'', jstr ''F1''), (''typeCode'', jnum 380), (''profile'', jnum 1),
                   (''dueDate'', jnum 0), (''seller'', jstr ''ACME''), (''buyer'', jnum 7),
                   (''lines'', JArr [obj [(''quantity'', jstr ''10''), (''vatRate'', jstr ''20'')]])]"
  let ?num = "sample_request (jnum 123) (JArr [sample_line 10 150 1500])"
  let ?null = "sample_request (jstr ''F1'') (JArr [JNull])"
  have 1: "safe sample_invoice"
    by (simp add: json_eval ok_eval js_eval lines_ok_array num_eval cong: by_value)
  have 2: "safe (JObj [])"
    by (simp add: ok_eval js_eval lines_ok_def)
  have 3: "safe ?odd"
    by (simp add: json_eval ok_eval js_eval lines_ok_array num_eval cong: by_value)
  have 4: "\<not> safe ?num"
    by (simp add: json_eval ok_eval js_eval lines_ok_array num_eval cong: by_value)
  have 5: "\<not> safe ?null"
    by (simp add: json_eval ok_eval js_eval lines_ok_array num_eval cong: by_value)
  from validate_returns [of sample_invoice] validate_returns [of "JObj []"]
    validate_returns [of ?odd] validate_returns [of ?num] validate_returns [of ?null] 1 2 3 4 5
  show ?thesis by blast
qed

text \<open>
  The request of the sample invoice with the number 123 in place of the string: the first
  check, \<open>invoice.number?.trim()\<close>, throws a \<open>TypeError\<close> (a number has no \<open>trim\<close>).
\<close>

theorem validate_throws_counterexample:
  "validateInvoice (sample_request (jnum 123) (JArr [sample_line 10 150 1500])) = Inl TypeError"
  by (simp add: json_eval validate_eval js_eval num_eval cong: by_value)

section \<open>The validator rejects\<close>

lemma validate_parts:
  assumes "validateInvoice v = Inr r"
  obtains e1 r2 e3 r4 w5 where
    "header_errors v = Inr e1" and "seller_checks v = Inr r2" and "buyer_errors v = Inr e3" and
    "lines_checks v = Inr r4" and "payment_warnings v = Inr w5" and
    "errors r = e1 @ fst r2 @ e3 @ fst r4" and "warnings r = snd r2 @ snd r4 @ w5" and
    "valid r = (errors r = [])"
proof -
  from assms obtain e1 where e1: "header_errors v = Inr e1"
    by (cases "header_errors v") (simp_all add: validateInvoice_def)
  from assms e1 obtain r2 where r2: "seller_checks v = Inr r2"
    by (cases "seller_checks v") (simp_all add: validateInvoice_def)
  from assms e1 r2 obtain e3 where e3: "buyer_errors v = Inr e3"
    by (cases "buyer_errors v") (simp_all add: validateInvoice_def)
  from assms e1 r2 e3 obtain r4 where r4: "lines_checks v = Inr r4"
    by (cases "lines_checks v") (simp_all add: validateInvoice_def)
  from assms e1 r2 e3 r4 obtain w5 where w5: "payment_warnings v = Inr w5"
    by (cases "payment_warnings v") (simp_all add: validateInvoice_def)
  from assms e1 r2 e3 r4 w5
  have "r = \<lparr>valid = (e1 @ fst r2 @ e3 @ fst r4 = []), errors = e1 @ fst r2 @ e3 @ fst r4,
             warnings = snd r2 @ snd r4 @ w5\<rparr>"
    by (simp add: validateInvoice_def Let_def)
  then have "errors r = e1 @ fst r2 @ e3 @ fst r4" and "warnings r = snd r2 @ snd r4 @ w5" and
    "valid r = (errors r = [])"
    by simp_all
  with e1 r2 e3 r4 w5 show thesis by (rule that)
qed

lemma trim_spaces:
  assumes "list_all is_space s"
  shows "trim s = []"
  using assms by (auto simp: trim_def list_all_iff dest: set_dropWhileD)

lemma header_blank_number:
  assumes "header_errors v = Inr e" and "get v ''number'' = JStr s" and "list_all is_space s"
  shows "msg_BT1 \<in> set e"
proof -
  from assms(1) header_cases [of v] have ok: "header_ok v" by auto
  with assms show ?thesis
    by (auto simp: header_ok_def header_errors_def read_prop_def blank_eq no_match_eq bad_date_eq
        trim_spaces when_msg_def)
qed

lemma lines_checks_empty:
  "get v ''lines'' = JArr [] \<Longrightarrow> lines_checks v = Inr ([msg_no_line], [])"
  by (simp add: lines_checks_def Let_def opt_prop_def nullish_def get_def)

text \<open>
  C5. Take a request on which \<open>validateInvoice\<close> returns. If its number is a string of
  white space only (the empty string is one), the result has \<open>valid = false\<close> and a list of
  errors that holds the message of the number field, BT-1. If its list of lines is the
  empty array, the result has \<open>valid = false\<close> and the message that asks for a line. White
  space is what \<open>trim\<close> removes, the no-break space and the other Unicode spaces included.
\<close>

theorem validate_rejects:
  assumes "safe v"
  shows "(get v ''number'' = JStr s \<and> list_all is_space s \<longrightarrow>
            (\<exists>r. validateInvoice v = Inr r \<and> \<not> valid r \<and> errors r \<noteq> [] \<and>
                 lit ''BT-1 : Num'' @ [233] @ lit ''ro de facture requis'' \<in> set (errors r))) \<and>
         (get v ''lines'' = JArr [] \<longrightarrow>
            (\<exists>r. validateInvoice v = Inr r \<and> \<not> valid r \<and>
                 lit ''Au moins une ligne de facture est requise'' \<in> set (errors r)))"
proof -
  from validate_returns [of v] assms obtain r where r: "validateInvoice v = Inr r" by blast
  from r obtain e1 r2 e3 r4 w5 where
    h: "header_errors v = Inr e1" and "seller_checks v = Inr r2" and
    "buyer_errors v = Inr e3" and l: "lines_checks v = Inr r4" and
    "payment_warnings v = Inr w5" and
    e: "errors r = e1 @ fst r2 @ e3 @ fst r4" and "warnings r = snd r2 @ snd r4 @ w5" and
    f: "valid r = (errors r = [])"
    by (rule validate_parts)
  have "msg_BT1 \<in> set (errors r)" if "get v ''number'' = JStr s" "list_all is_space s"
    using header_blank_number [OF h that] e by simp
  moreover have "msg_no_line \<in> set (errors r)" if "get v ''lines'' = JArr []"
    using lines_checks_empty [OF that] l e by auto
  ultimately show ?thesis using r f by (auto simp: msg_BT1_def msg_no_line_def e_acute_def)
qed

theorem validate_rejects_witness:
  "validateInvoice (sample_request (JStr [160, 32, 8232]) (JArr [sample_line 10 150 1500])) =
     Inr \<lparr>valid = False,
          errors = [lit ''BT-1 : Num'' @ [233] @ lit ''ro de facture requis''],
          warnings = []\<rparr> \<and>
   validateInvoice (sample_request (JStr []) (JArr [sample_line 10 150 1500])) =
     Inr \<lparr>valid = False,
          errors = [lit ''BT-1 : Num'' @ [233] @ lit ''ro de facture requis''],
          warnings = []\<rparr> \<and>
   validateInvoice (sample_request (jstr ''F-2024-001'') (JArr [])) =
     Inr \<lparr>valid = False,
          errors = [lit ''Au moins une ligne de facture est requise''],
          warnings = []\<rparr>"
proof -
  let ?a = "sample_request (JStr [160, 32, 8232]) (JArr [sample_line 10 150 1500])"
  let ?b = "sample_request (JStr []) (JArr [sample_line 10 150 1500])"
  let ?c = "sample_request (jstr ''F-2024-001'') (JArr [])"
  have sa: "safe ?a" by (simp add: json_eval ok_eval js_eval lines_ok_array num_eval cong: by_value)
  have sb: "safe ?b" by (simp add: json_eval ok_eval js_eval lines_ok_array num_eval cong: by_value)
  have sc: "safe ?c" by (simp add: json_eval ok_eval js_eval lines_ok_array num_eval cong: by_value)
  have na: "get ?a ''number'' = JStr [160, 32, 8232] \<and> list_all is_space [160, 32, 8232]"
    by (simp add: json_eval js_eval is_space_def)
  have nb: "get ?b ''number'' = JStr [] \<and> list_all is_space []"
    by (simp add: json_eval js_eval)
  have lc: "get ?c ''lines'' = JArr []" by (simp add: json_eval js_eval)
  from validate_rejects [OF sa, of "[160, 32, 8232]"] na obtain ra where
    ra: "validateInvoice ?a = Inr ra" "\<not> valid ra" by blast
  from validate_rejects [OF sb, of "[]"] nb obtain rb where
    rb: "validateInvoice ?b = Inr rb" "\<not> valid rb" by blast
  from validate_rejects [OF sc, of "[]"] lc obtain rc where
    rc: "validateInvoice ?c = Inr rc" "\<not> valid rc" by blast
  have ea: "validateInvoice ?a = Inr \<lparr>valid = False,
      errors = [lit ''BT-1 : Num'' @ [233] @ lit ''ro de facture requis''], warnings = []\<rparr>"
    by (simp add: json_eval validate_eval js_eval num_eval msg_eval cong: by_value)
  have eb: "validateInvoice ?b = Inr \<lparr>valid = False,
      errors = [lit ''BT-1 : Num'' @ [233] @ lit ''ro de facture requis''], warnings = []\<rparr>"
    by (simp add: json_eval validate_eval js_eval num_eval msg_eval cong: by_value)
  have ec: "validateInvoice ?c = Inr \<lparr>valid = False,
      errors = [lit ''Au moins une ligne de facture est requise''], warnings = []\<rparr>"
    by (simp add: json_eval validate_eval js_eval num_eval msg_eval cong: by_value)
  from ra rb rc ea eb ec show ?thesis by simp
qed

section \<open>The validator warns about a line's total\<close>


















text \<open>
  The check in binary64. One unit at 1357.185 with the total 1357.21: the product times
  100 is 135718.5, which \<open>Math.round\<close> takes up to 135719, and 1357.21 - 1357.19 is
  0.01999999999998181, which is not above 0.02: no warning. Ten units at 15 with the total
  150.02: 150.02 - 150 is 0.020000000000010232, which is above 0.02: a warning, of a
  difference of 0.02.
\<close>

lemma amount_check_binary64:
  "validateInvoice (sample_request (jstr ''F-2024-001'')
       (JArr [sample_line 1 (1357185 / 1000) (135721 / 100)])) =
     Inr \<lparr>valid = True, errors = [], warnings = []\<rparr>"
  "validateInvoice (sample_request (jstr ''F-2024-001'') (JArr [sample_line 10 15 (15002 / 100)])) =
     Inr \<lparr>valid = True, errors = [],
          warnings = [lit ''Ligne 1 : Montant total (150.02) '' @ [8800] @ lit '' quantit'' @ [233] @
                      lit '' '' @ [215] @ lit '' prix unitaire (150) '' @ [8212] @ lit '' '' @
                      [233] @ lit ''cart de 0.02 '' @ [8364]]\<rparr>"
  by (simp_all add: json_eval validate_eval js_eval num_eval msg_eval cong: by_value)

end
